theory Spec2Isabelle
  imports Complex_Main
begin

section \<open>Values of the program\<close>

text \<open>
  The module \<^verbatim>\<open>celespy/astro/astrofunc.py\<close> works on astropy objects. An instant
  (\<^verbatim>\<open>astropy.time.Time\<close>) is modelled as an exact number of seconds on a uniform time
  scale, a \<^verbatim>\<open>TimeDelta\<close> as a number of seconds (\<^verbatim>\<open>TimeDelta(1, format='jd')\<close> is 86400),
  and angles as exact numbers of degrees. Rounding of the floating-point
  representation is outside this model.
\<close>

type_synonym Time = rat

record EarthLocation =
  lat_deg :: rat
  lon_deg :: rat

record SkyCoord =
  ra_deg :: rat
  dec_deg :: rat

record AltAz =
  az_deg :: rat
  alt_deg :: rat

text \<open>
  Python exceptions, by class, with the message or the name they are about.
  \<open>NameError\<close> stands for the
  \<^verbatim>\<open>UnboundLocalError\<close> (a subclass of \<^verbatim>\<open>NameError\<close>) that reading an unassigned local
  raises; \<open>LibraryError\<close> is any exception raised inside astropy, numpy or geopy.
\<close>

datatype exn =
    ValueError string
  | AssertionError string
  | NameError string
  | TypeError string
  | AttributeError string
  | LibraryError string

text \<open>
  The arguments are duck-typed: each function dispatches with \<^verbatim>\<open>isinstance\<close>. The
  datatypes below list the dynamic kinds the dispatch distinguishes; the last
  constructor of each is any other Python value (\<^verbatim>\<open>None\<close> included).
\<close>

datatype loc_arg = LocStr string | LocTuple "rat list" | LocEarth EarthLocation | LocOther

datatype source_arg = SrcStr string | SrcTuple "rat list" | SrcSky SkyCoord | SrcOther

datatype time_arg = TimeObj Time | TimeStr string | TimeNum rat | TimeOther

text \<open>
  What the module imports and does not define: the clock, the constructors of
  \<^verbatim>\<open>Time\<close>, the geocoders, the name resolvers, \<^verbatim>\<open>np.degrees\<close> and the transform to the
  horizontal frame. They are parameters of the model. The transform is a pure
  function that gives a position for every source, instant and location. The
  constructors \<^verbatim>\<open>EarthLocation(lat=.., lon=..)\<close> and \<^verbatim>\<open>SkyCoord(ra, dec, frame='icrs')\<close>
  build the records above (their range checks are not modelled).
\<close>

record externals =
  now :: Time
  Time_str :: "string \<Rightarrow> exn + Time"
  Time_num :: "string \<Rightarrow> rat \<Rightarrow> exn + Time"
  USE_GEOPY :: bool
  of_address :: "string \<Rightarrow> exn + EarthLocation"
  geocode :: "string \<Rightarrow> exn + (rat \<times> rat) option"
  get_body :: "string \<Rightarrow> Time \<Rightarrow> EarthLocation \<Rightarrow> exn + SkyCoord"
  from_name :: "string \<Rightarrow> exn + SkyCoord"
  degrees :: "rat \<Rightarrow> rat"
  transform_to :: "SkyCoord \<Rightarrow> Time \<Rightarrow> EarthLocation \<Rightarrow> AltAz"

subsection \<open>\<^verbatim>\<open>str.lower\<close> on ASCII strings\<close>

text \<open>
  Strings are strings of 8-bit characters; \<^verbatim>\<open>str.lower\<close> maps the 26 capital letters
  to the small ones and leaves every other character as it is.
\<close>

definition lower_char :: "char \<Rightarrow> char" where
  "lower_char c =
     (case map_of (zip ''ABCDEFGHIJKLMNOPQRSTUVWXYZ'' ''abcdefghijklmnopqrstuvwxyz'') c of
        Some d \<Rightarrow> d
      | None \<Rightarrow> c)"

definition lower :: "string \<Rightarrow> string" where
  "lower s = map lower_char s"

section \<open>The resolvers\<close>

definition getLoc :: "externals \<Rightarrow> loc_arg \<Rightarrow> string \<Rightarrow> exn + EarthLocation" where
  "getLoc ext loc unit =
     (case loc of
        LocStr s \<Rightarrow>
          if lower s = ''nenufar'' then
            Inr \<lparr>lat_deg = 47376511 / 1000000, lon_deg = 21924002 / 10000000\<rparr>
          else if \<not> USE_GEOPY ext then of_address ext s
          else (case geocode ext s of
                  Inl e \<Rightarrow> Inl e
                | Inr None \<Rightarrow> Inl (AttributeError ''latitude'')
                | Inr (Some (latitude, longitude)) \<Rightarrow>
                    Inr \<lparr>lat_deg = latitude, lon_deg = longitude\<rparr>)
      | LocTuple xs \<Rightarrow>
          if length xs \<noteq> 2 then Inl (AssertionError ''Only length 2 tuple is understood.'')
          else
            let ys = (if lower unit \<noteq> ''deg'' then map (degrees ext) xs else xs)
            in Inr \<lparr>lat_deg = ys ! 0, lon_deg = ys ! 1\<rparr>
      | LocEarth l \<Rightarrow> Inr l
      | LocOther \<Rightarrow>
          Inl (ValueError
            ''loc must be aither a tuple: (lon, lat) in degrees or a string adress.''))"

definition getTime :: "externals \<Rightarrow> time_arg \<Rightarrow> string option \<Rightarrow> exn + Time" where
  "getTime ext time unit =
     (case time of
        TimeObj t \<Rightarrow> Inr t
      | TimeStr s \<Rightarrow>
          if lower s = ''now'' then Inr (now ext)
          else if lower s = ''tomorrow'' then Inr (now ext + 86400)
          else if lower s = ''yesterday'' then Inr (now ext - 86400)
          else Time_str ext s
      | TimeNum x \<Rightarrow>
          let unit = (case unit of None \<Rightarrow> ''jd'' | Some u \<Rightarrow> u)
          in Time_num ext (lower unit) x
      | TimeOther \<Rightarrow> Inl (ValueError ''time parameter not understood.''))"

text \<open>
  In \<^verbatim>\<open>getSrc\<close> the locals \<^verbatim>\<open>ra\<close> and \<^verbatim>\<open>dec\<close> of the tuple branch are assigned only
  under \<^verbatim>\<open>if not unit.lower() == 'deg'\<close>; \<open>radec\<close> below is \<open>None\<close> while they are
  unbound, and reading them then raises.
\<close>

definition getSrc :: "externals \<Rightarrow> source_arg \<Rightarrow> time_arg \<Rightarrow> loc_arg \<Rightarrow> string \<Rightarrow> exn + SkyCoord" where
  "getSrc ext source time loc unit =
     (case source of
        SrcStr s \<Rightarrow>
          if lower s \<in> set [''sun'', ''moon'', ''jupiter'', ''saturn'', ''mars'', ''venus''] then
            (case getTime ext time None of
               Inl e \<Rightarrow> Inl e
             | Inr t \<Rightarrow>
                 (case getLoc ext loc ''deg'' of
                    Inl e \<Rightarrow> Inl e
                  | Inr l \<Rightarrow> get_body ext s t l))
          else from_name ext s
      | SrcTuple xs \<Rightarrow>
          if length xs \<noteq> 2 then Inl (AssertionError ''Only length 2 tuple is understood.'')
          else
            let radec = (if lower unit \<noteq> ''deg''
                         then Some (degrees ext (xs ! 0), degrees ext (xs ! 1))
                         else None)
            in (case radec of
                  None \<Rightarrow> Inl (NameError ''ra'')
                | Some (ra, dec) \<Rightarrow> Inr \<lparr>ra_deg = ra, dec_deg = dec\<rparr>)
      | SrcSky c \<Rightarrow> Inr c
      | SrcOther \<Rightarrow> Inl (ValueError ''source parameter not understood.''))"

text \<open>
  \<^verbatim>\<open>getAltaz\<close>: in the tuple branch with a unit other than degrees the source calls
  \<^verbatim>\<open>np.degrees(ra, dec)\<close>, whose second positional argument is the output array: with
  a number there numpy raises a \<^verbatim>\<open>TypeError\<close>.
\<close>

definition getAltaz :: "externals \<Rightarrow> source_arg \<Rightarrow> time_arg \<Rightarrow> loc_arg \<Rightarrow> string \<Rightarrow> exn + AltAz" where
  "getAltaz ext source time loc unit =
     (case (case source of
              SrcStr s \<Rightarrow>
                (case getSrc ext source time loc unit of
                   Inl e \<Rightarrow> Inl e
                 | Inr c \<Rightarrow> Inr (ra_deg c, dec_deg c))
            | SrcTuple xs \<Rightarrow>
                if length xs \<noteq> 2 then Inl (AssertionError ''Only length 2 tuple is understood.'')
                else if lower unit \<noteq> ''deg'' then Inl (TypeError ''return arrays must be of ArrayType'')
                else Inr (xs ! 0, xs ! 1)
            | SrcSky c \<Rightarrow> Inr (ra_deg c, dec_deg c)
            | SrcOther \<Rightarrow> Inl (ValueError ''source parameter not understood.'')) of
        Inl e \<Rightarrow> Inl e
      | Inr (ra, dec) \<Rightarrow>
          (case getTime ext time None of
             Inl e \<Rightarrow> Inl e
           | Inr t \<Rightarrow>
               (case getLoc ext loc ''deg'' of
                  Inl e \<Rightarrow> Inl e
                | Inr l \<Rightarrow> Inr (transform_to ext \<lparr>ra_deg = ra, dec_deg = dec\<rparr> t l))))"

section \<open>The crossing search of \<^verbatim>\<open>getTransit\<close>\<close>

text \<open>
  Inside \<^verbatim>\<open>getTransit\<close> every call of \<^verbatim>\<open>getAltaz\<close> has the form
  \<^verbatim>\<open>getAltaz(source, t, loc)\<close>, with the source and the location already resolved to a
  \<^verbatim>\<open>SkyCoord\<close> and an \<^verbatim>\<open>EarthLocation\<close>, \<open>t\<close> a \<^verbatim>\<open>Time\<close>, and the default unit.
\<close>

definition getAltaz_at :: "externals \<Rightarrow> SkyCoord \<Rightarrow> EarthLocation \<Rightarrow> Time \<Rightarrow> exn + AltAz" where
  "getAltaz_at ext source loc time = getAltaz ext (SrcSky source) (TimeObj time) (LocEarth loc) ''deg''"

text \<open>
  The three \<^verbatim>\<open>while\<close> loops of \<^verbatim>\<open>getTransit\<close> have the same body up to the step
  \<open>dt\<close> and the final \<^verbatim>\<open>else: raise ValueError\<close>, which only the first loop has.
  \<open>crossing_test\<close> is the \<^verbatim>\<open>if/elif/else\<close> chain of that body at the instant \<open>time\<close>;
  \<open>ev\<close> is the call \<^verbatim>\<open>getAltaz(source, time, loc)\<close> as a function of \<^verbatim>\<open>time\<close>, for
  the resolved source and location. \<open>Break\<close> is the \<^verbatim>\<open>break\<close>, \<open>Fallthrough\<close> a branch that ends without
  \<^verbatim>\<open>break\<close> (two calls of \<^verbatim>\<open>getAltaz\<close> made in both), \<open>Else\<close> the final \<^verbatim>\<open>else\<close> (no call
  made), and \<open>Raise e k\<close> an exception out of the \<open>k\<close>-th call of \<^verbatim>\<open>getAltaz\<close>.
\<close>

datatype flow = Raise exn nat | Break | Fallthrough | Else

definition crossing_test ::
  "(Time \<Rightarrow> exn + AltAz) \<Rightarrow> rat option \<Rightarrow> rat option \<Rightarrow> string \<Rightarrow> Time \<Rightarrow> Time \<Rightarrow> flow" where
  "crossing_test ev az el way time dt =
     (if az \<noteq> None \<and> el = None then
        (case ev time of
           Inl e \<Rightarrow> Raise e 1
         | Inr a1 \<Rightarrow>
             (case ev (time + dt) of
                Inl e \<Rightarrow> Raise e 2
              | Inr a2 \<Rightarrow>
                  let c1 = az_deg a1; c2 = az_deg a2 in
                  if c1 \<le> the az \<and> the az \<le> c2 then Break else Fallthrough))
      else if el \<noteq> None \<and> az = None then
        (case ev time of
           Inl e \<Rightarrow> Raise e 1
         | Inr a1 \<Rightarrow>
             (case ev (time + dt) of
                Inl e \<Rightarrow> Raise e 2
              | Inr a2 \<Rightarrow>
                  let c1 = alt_deg a1; c2 = alt_deg a2 in
                  if lower way = ''rise'' then
                    (if c1 \<le> the el \<and> the el \<le> c2 then Break else Fallthrough)
                  else if lower way = ''set'' then
                    (if c2 \<le> the el \<and> the el \<le> c1 then Break else Fallthrough)
                  else Fallthrough))
      else Else)"

text \<open>
  One \<^verbatim>\<open>while\<close> loop: \<^verbatim>\<open>while time <= time + window: <body>; time += dt\<close>. The loop
  condition compares the loop variable with itself plus the window, as the source
  writes it. \<open>strict\<close> says whether the body ends with the \<^verbatim>\<open>else: raise ValueError\<close>.
  \<open>n\<close> counts the calls of \<^verbatim>\<open>getAltaz\<close> made so far. A loop that never leaves has no
  result: \<open>None\<close>.
\<close>

partial_function (option) search_pass ::
  "(Time \<Rightarrow> exn + AltAz) \<Rightarrow> rat option \<Rightarrow> rat option \<Rightarrow> string \<Rightarrow> Time \<Rightarrow> Time \<Rightarrow> bool
     \<Rightarrow> Time \<Rightarrow> nat \<Rightarrow> ((exn + Time) \<times> nat) option" where
  "search_pass ev az el way window dt strict time n =
     (if time \<le> time + window then
        (case crossing_test ev az el way time dt of
           Raise e k \<Rightarrow> Some (Inl e, n + k)
         | Break \<Rightarrow> Some (Inr time, n + 2)
         | Fallthrough \<Rightarrow> search_pass ev az el way window dt strict (time + dt) (n + 2)
         | Else \<Rightarrow>
             if strict then
               Some (Inl (ValueError ''either az or el parameters should not be None''), n)
             else search_pass ev az el way window dt strict (time + dt) n)
      else Some (Inr time, n))"

text \<open>
  The three passes, with the windows and steps of the source: the rough search has
  the window \<^verbatim>\<open>TimeDelta(1, format='jd')\<close> and the step \<^verbatim>\<open>bigdt\<close> of 1800 s, the mid search
  the window \<^verbatim>\<open>bigdt\<close> and the step \<^verbatim>\<open>middt\<close> of 300 s, the finer search the window \<^verbatim>\<open>middt\<close>
  and the step \<^verbatim>\<open>smalldt\<close> of 5 s.
\<close>

definition coarse_pass ::
  "(Time \<Rightarrow> exn + AltAz) \<Rightarrow> rat option \<Rightarrow> rat option \<Rightarrow> string \<Rightarrow> Time \<Rightarrow> nat
     \<Rightarrow> ((exn + Time) \<times> nat) option" where
  "coarse_pass ev az el way time n =
     search_pass ev az el way 86400 1800 True time n"

definition mid_pass ::
  "(Time \<Rightarrow> exn + AltAz) \<Rightarrow> rat option \<Rightarrow> rat option \<Rightarrow> string \<Rightarrow> Time \<Rightarrow> nat
     \<Rightarrow> ((exn + Time) \<times> nat) option" where
  "mid_pass ev az el way time n =
     search_pass ev az el way 1800 300 False time n"

definition fine_pass ::
  "(Time \<Rightarrow> exn + AltAz) \<Rightarrow> rat option \<Rightarrow> rat option \<Rightarrow> string \<Rightarrow> Time \<Rightarrow> nat
     \<Rightarrow> ((exn + Time) \<times> nat) option" where
  "fine_pass ev az el way time n =
     search_pass ev az el way 300 5 False time n"

text \<open>
  The statements after the \<^verbatim>\<open>assert\<close>: the three loops one after the other on the
  same variable \<^verbatim>\<open>time\<close>, then \<^verbatim>\<open>return time + smalldt/2.\<close>
\<close>

definition search ::
  "(Time \<Rightarrow> exn + AltAz) \<Rightarrow> rat option \<Rightarrow> rat option \<Rightarrow> string \<Rightarrow> Time
     \<Rightarrow> ((exn + Time) \<times> nat) option" where
  "search ev az el way time =
     (case coarse_pass ev az el way time 0 of
        None \<Rightarrow> None
      | Some (Inl e, n) \<Rightarrow> Some (Inl e, n)
      | Some (Inr t, n) \<Rightarrow>
          (case mid_pass ev az el way t n of
             None \<Rightarrow> None
           | Some (Inl e, n') \<Rightarrow> Some (Inl e, n')
           | Some (Inr t', n') \<Rightarrow>
               (case fine_pass ev az el way t' n' of
                  None \<Rightarrow> None
                | Some (Inl e, n'') \<Rightarrow> Some (Inl e, n'')
                | Some (Inr t'', n'') \<Rightarrow> Some (Inr (t'' + 5 / 2), n''))))"

text \<open>
  \<^verbatim>\<open>getTransit\<close>. The result is \<open>None\<close> when the call never returns; otherwise the
  exception or the instant returned, with the number of calls of \<^verbatim>\<open>getAltaz\<close> made.
\<close>

definition getTransit ::
  "externals \<Rightarrow> source_arg \<Rightarrow> time_arg \<Rightarrow> loc_arg \<Rightarrow> rat option \<Rightarrow> rat option \<Rightarrow> string \<Rightarrow> string
     \<Rightarrow> ((exn + Time) \<times> nat) option" where
  "getTransit ext source time loc az el unit way =
     (case getTime ext time None of
        Inl e \<Rightarrow> Some (Inl e, 0)
      | Inr t \<Rightarrow>
          (case getLoc ext loc ''deg'' of
             Inl e \<Rightarrow> Some (Inl e, 0)
           | Inr l \<Rightarrow>
               (case getSrc ext source (TimeObj t) (LocEarth l) unit of
                  Inl e \<Rightarrow> Some (Inl e, 0)
                | Inr c \<Rightarrow>
                    if \<not> (lower way = ''rise'' \<or> lower way = ''set'') then
                      Some (Inl (AssertionError ''way must be either rise or set''), 0)
                    else
                      search (getAltaz_at ext c l) az el way t)))"

section \<open>The wrappers\<close>

definition riseTime ::
  "externals \<Rightarrow> source_arg \<Rightarrow> time_arg \<Rightarrow> loc_arg \<Rightarrow> string \<Rightarrow> ((exn + Time) \<times> nat) option" where
  "riseTime ext source time loc unit = getTransit ext source time loc None (Some 0) unit ''rise''"

definition setTime ::
  "externals \<Rightarrow> source_arg \<Rightarrow> time_arg \<Rightarrow> loc_arg \<Rightarrow> string \<Rightarrow> ((exn + Time) \<times> nat) option" where
  "setTime ext source time loc unit = getTransit ext source time loc None (Some 0) unit ''set''"

definition meridianTime ::
  "externals \<Rightarrow> source_arg \<Rightarrow> time_arg \<Rightarrow> loc_arg \<Rightarrow> string \<Rightarrow> ((exn + Time) \<times> nat) option" where
  "meridianTime ext source time loc unit = getTransit ext source time loc (Some 180) None unit ''rise''"

section \<open>The specification's vocabulary\<close>

text \<open>
  The specification describes a query by a target, \<open>Azimuth A\<close> or \<open>Elevation E\<close>, and
  a direction, and the test of a sampled pair \<open>(c1, c2)\<close> by a crossing predicate.
  The definitions of this section follow the specification's words; the theorems
  below compare them with the code.
\<close>

datatype TargetSpec = Azimuth rat | Elevation rat

datatype Direction = Rise | Set

definition crossing_predicate :: "TargetSpec \<Rightarrow> Direction \<Rightarrow> rat \<Rightarrow> rat \<Rightarrow> bool" where
  "crossing_predicate target direction c1 c2 =
     (case target of
        Azimuth A \<Rightarrow> c1 \<le> A \<and> A \<le> c2
      | Elevation E \<Rightarrow>
          (case direction of
             Rise \<Rightarrow> c1 \<le> E \<and> E \<le> c2
           | Set \<Rightarrow> c2 \<le> E \<and> E \<le> c1))"

definition channel :: "TargetSpec \<Rightarrow> AltAz \<Rightarrow> rat" where
  "channel target a = (case target of Azimuth A \<Rightarrow> az_deg a | Elevation E \<Rightarrow> alt_deg a)"

text \<open>
  The target and the direction that the arguments \<^verbatim>\<open>az\<close>, \<^verbatim>\<open>el\<close> and \<^verbatim>\<open>way\<close> of
  \<^verbatim>\<open>getTransit\<close> stand for: exactly one of \<^verbatim>\<open>az\<close>, \<^verbatim>\<open>el\<close> is given, and \<^verbatim>\<open>way\<close> is
  \<^verbatim>\<open>'rise'\<close> or \<^verbatim>\<open>'set'\<close> in any capitalisation.
\<close>

definition target_of :: "rat option \<Rightarrow> rat option \<Rightarrow> TargetSpec option" where
  "target_of az el =
     (case az of
        Some A \<Rightarrow> (case el of None \<Rightarrow> Some (Azimuth A) | Some E \<Rightarrow> None)
      | None \<Rightarrow> (case el of None \<Rightarrow> None | Some E \<Rightarrow> Some (Elevation E)))"

definition direction_of :: "string \<Rightarrow> Direction option" where
  "direction_of way =
     (if lower way = ''rise'' then Some Rise
      else if lower way = ''set'' then Some Set
      else None)"

text \<open>The flows after which a loop goes on to \<^verbatim>\<open>time += dt\<close>.\<close>

definition continues :: "bool \<Rightarrow> flow \<Rightarrow> bool" where
  "continues strict fl \<longleftrightarrow> fl = Fallthrough \<or> (fl = Else \<and> \<not> strict)"

text \<open>The two exceptions that \<^verbatim>\<open>getTransit\<close> raises itself.\<close>

definition way_error :: exn where
  "way_error = AssertionError ''way must be either rise or set''"

definition target_error :: exn where
  "target_error = ValueError ''either az or el parameters should not be None''"

section \<open>Synthetic collaborators\<close>

text \<open>
  Concrete collaborators for evaluating the model: a clock stopped at 0, resolvers
  that always fail, and a horizontal transform given by a function of the instant.
\<close>

definition synthetic :: "(Time \<Rightarrow> AltAz) \<Rightarrow> externals" where
  "synthetic f =
     \<lparr>now = 0,
      Time_str = (\<lambda>s. Inl (LibraryError ''Time'')),
      Time_num = (\<lambda>fmt x. Inl (LibraryError ''Time'')),
      USE_GEOPY = False,
      of_address = (\<lambda>s. Inl (LibraryError ''of_address'')),
      geocode = (\<lambda>s. Inl (LibraryError ''geocode'')),
      get_body = (\<lambda>s t l. Inl (LibraryError ''get_body'')),
      from_name = (\<lambda>s. Inl (LibraryError ''from_name'')),
      degrees = (\<lambda>x. x * 180 * 7 / 22),
      transform_to = (\<lambda>c t l. f t)\<rparr>"

definition origin :: SkyCoord where
  "origin = \<lparr>ra_deg = 0, dec_deg = 0\<rparr>"

definition nenufar :: EarthLocation where
  "nenufar = \<lparr>lat_deg = 47376511 / 1000000, lon_deg = 21924002 / 10000000\<rparr>"

text \<open>A source that stays at elevation 45 and azimuth 10: it never crosses the horizon.\<close>

definition circumpolar :: "Time \<Rightarrow> AltAz" where
  "circumpolar t = \<lparr>az_deg = 10, alt_deg = 45\<rparr>"

text \<open>
  A source whose elevation and azimuth grow by one degree every 240 seconds, from
  elevation \<open>-100\<close> and azimuth 0 at instant 0.
\<close>

definition rising :: "Time \<Rightarrow> AltAz" where
  "rising t = \<lparr>az_deg = t / 240, alt_deg = t / 240 - 100\<rparr>"

section \<open>Properties\<close>

subsection \<open>One loop\<close>

text \<open>
  With a window that is not negative the loop condition is true at every instant,
  and the loop is its body followed by itself.
\<close>

lemma search_pass_unfold:
  assumes "0 \<le> window"
  shows "search_pass g az el way window dt strict time n =
        (case crossing_test g az el way time dt of
           Raise e k \<Rightarrow> Some (Inl e, n + k)
         | Break \<Rightarrow> Some (Inr time, n + 2)
         | Fallthrough \<Rightarrow> search_pass g az el way window dt strict (time + dt) (n + 2)
         | Else \<Rightarrow>
             if strict then
               Some (Inl (ValueError ''either az or el parameters should not be None''), n)
             else search_pass g az el way window dt strict (time + dt) n)"
  using assms by (subst search_pass.simps) simp

text \<open>
  A loop that returns has reached, after some number of steps, an instant at which
  its body does not go on; by induction on the loop's fixed point.
\<close>

lemma search_pass_returns_orbit:
  assumes ret: "search_pass g az el way window dt strict time n = Some y" and w: "0 \<le> window"
  shows "\<exists>k::nat. \<not> continues strict (crossing_test g az el way (time + of_nat k * dt) dt)"
proof -
  have "0 \<le> window \<longrightarrow>
        (\<exists>k::nat. \<not> continues strict (crossing_test g az el way (time + of_nat k * dt) dt))"
  proof (rule search_pass.raw_induct[where P = "\<lambda>g az el way window dt strict time n y.
           0 \<le> window \<longrightarrow>
           (\<exists>k::nat. \<not> continues strict (crossing_test g az el way (time + of_nat k * dt) dt))",
        OF _ ret])
    fix sp g az el way window dt strict time n and y :: "(exn + Time) \<times> nat"
    assume IH: "\<And>g az el way window dt strict time n y.
             sp g az el way window dt strict time n = Some y \<Longrightarrow>
             0 \<le> window \<longrightarrow>
             (\<exists>k::nat. \<not> continues strict (crossing_test g az el way (time + of_nat k * dt) dt))"
      and eq: "(if time \<le> time + window then
          (case crossing_test g az el way time dt of
             Raise e k \<Rightarrow> Some (Inl e, n + k)
           | Break \<Rightarrow> Some (Inr time, n + 2)
           | Fallthrough \<Rightarrow> sp g az el way window dt strict (time + dt) (n + 2)
           | Else \<Rightarrow>
               if strict then
                 Some (Inl (ValueError ''either az or el parameters should not be None''), n)
               else sp g az el way window dt strict (time + dt) n)
        else Some (Inr time, n)) = Some y"
    show "0 \<le> window \<longrightarrow>
          (\<exists>k::nat. \<not> continues strict (crossing_test g az el way (time + of_nat k * dt) dt))"
    proof
      assume w: "0 \<le> window"
      show "\<exists>k::nat. \<not> continues strict (crossing_test g az el way (time + of_nat k * dt) dt)"
      proof (cases "continues strict (crossing_test g az el way time dt)")
        case False
        then have "\<not> continues strict (crossing_test g az el way (time + of_nat 0 * dt) dt)"
          by simp
        then show ?thesis by blast
      next
        case True
        from True eq w have "\<exists>m. sp g az el way window dt strict (time + dt) m = Some y"
          by (auto simp: continues_def split: if_splits)
        then obtain m where "sp g az el way window dt strict (time + dt) m = Some y" ..
        from IH[OF this] w obtain k :: nat
          where k: "\<not> continues strict (crossing_test g az el way (time + dt + of_nat k * dt) dt)"
          by blast
        have "time + dt + of_nat k * dt = time + of_nat (Suc k) * dt"
          by (simp add: algebra_simps)
        with k show ?thesis by metis
      qed
    qed
  qed
  with w show ?thesis by blast
qed

text \<open>So a loop whose body goes on at every step never returns.\<close>

lemma search_pass_diverges:
  assumes "0 \<le> window"
    and "\<And>k::nat. continues strict (crossing_test g az el way (time + of_nat k * dt) dt)"
  shows "search_pass g az el way window dt strict time n = None"
proof (cases "search_pass g az el way window dt strict time n")
  case (Some y)
  from search_pass_returns_orbit[OF this assms(1)] assms(2) show ?thesis by blast
qed simp

text \<open>The first \<open>k\<close> steps, when the body falls through at each of them.\<close>

lemma search_pass_unroll:
  assumes "0 \<le> window"
    and "\<And>i. i < k \<Longrightarrow> crossing_test g az el way (time + of_nat i * dt) dt = Fallthrough"
  shows "search_pass g az el way window dt strict time n =
         search_pass g az el way window dt strict (time + of_nat k * dt) (n + 2 * k)"
  using assms(2)
proof (induction k arbitrary: time n)
  case 0
  show ?case by simp
next
  case (Suc k)
  from Suc.prems[of 0] have first: "crossing_test g az el way time dt = Fallthrough" by simp
  have rest: "crossing_test g az el way (time + dt + of_nat i * dt) dt = Fallthrough" if "i < k" for i
    using Suc.prems[of "Suc i"] that by (simp add: algebra_simps)
  have "search_pass g az el way window dt strict time n =
        search_pass g az el way window dt strict (time + dt) (n + 2)"
    by (subst search_pass_unfold[OF assms(1)]) (simp add: first)
  also have "\<dots> = search_pass g az el way window dt strict (time + dt + of_nat k * dt) (n + 2 + 2 * k)"
    by (rule Suc.IH) (rule rest)
  finally show ?case by (simp add: algebra_simps)
qed

lemma search_pass_finds:
  assumes "0 \<le> window"
    and "\<And>i. i < k \<Longrightarrow> crossing_test g az el way (time + of_nat i * dt) dt = Fallthrough"
    and "crossing_test g az el way (time + of_nat k * dt) dt = Break"
  shows "search_pass g az el way window dt strict time n =
         Some (Inr (time + of_nat k * dt), n + 2 * (k + 1))"
proof -
  have "search_pass g az el way window dt strict time n =
        search_pass g az el way window dt strict (time + of_nat k * dt) (n + 2 * k)"
    using assms(1,2) by (rule search_pass_unroll)
  also have "\<dots> = Some (Inr (time + of_nat k * dt), n + 2 * k + 2)"
    by (subst search_pass_unfold[OF assms(1)]) (simp add: assms(3))
  finally show ?thesis by simp
qed

subsection \<open>The crossing test on a total evaluator\<close>

lemma target_of_Some_iff:
  "target_of az el = Some tg \<longleftrightarrow>
     (\<exists>A. az = Some A \<and> el = None \<and> tg = Azimuth A) \<or> (\<exists>E. az = None \<and> el = Some E \<and> tg = Elevation E)"
  by (auto simp: target_of_def split: option.splits)

lemma crossing_test_Else_iff:
  "crossing_test g az el way t dt = Else \<longleftrightarrow> target_of az el = None"
  by (auto simp: crossing_test_def target_of_def Let_def split: option.splits sum.splits)

lemma direction_of_Some_iff:
  "direction_of way = Some d \<longleftrightarrow> (lower way = ''rise'' \<and> d = Rise) \<or> (lower way = ''set'' \<and> d = Set)"
  by (auto simp: direction_of_def)

lemma crossing_test_spec:
  assumes "target_of az el = Some tg" and "direction_of way = Some d"
  shows "crossing_test (\<lambda>t. Inr (f t)) az el way t dt =
         (if crossing_predicate tg d (channel tg (f t)) (channel tg (f (t + dt))) then Break
          else Fallthrough)"
  using assms
  by (auto simp: target_of_Some_iff direction_of_Some_iff crossing_test_def crossing_predicate_def
        channel_def Let_def)

lemma crossing_test_total:
  assumes "target_of az el = Some tg" and "direction_of way = Some d"
  shows "crossing_test (\<lambda>t. Inr (f t)) az el way t dt = Break \<or>
         crossing_test (\<lambda>t. Inr (f t)) az el way t dt = Fallthrough"
  by (simp add: crossing_test_spec[OF assms])

text \<open>
  When the body only breaks or falls through, a loop that returns has returned the
  first instant of its orbit at which the body breaks.
\<close>

lemma search_pass_result:
  assumes w: "0 \<le> window"
    and bf: "\<And>u. crossing_test g az el way u dt = Break \<or> crossing_test g az el way u dt = Fallthrough"
    and ret: "search_pass g az el way window dt strict time n = Some y"
  shows "\<exists>k. y = (Inr (time + of_nat k * dt), n + 2 * (k + 1)) \<and>
             crossing_test g az el way (time + of_nat k * dt) dt = Break \<and>
             (\<forall>i<k. crossing_test g az el way (time + of_nat i * dt) dt = Fallthrough)"
proof -
  let ?stop = "\<lambda>k::nat. \<not> continues strict (crossing_test g az el way (time + of_nat k * dt) dt)"
  from search_pass_returns_orbit[OF ret w] obtain k0 where "?stop k0" ..
  define k where "k = (LEAST k. ?stop k)"
  have stop: "?stop k" unfolding k_def using \<open>?stop k0\<close> by (rule LeastI)
  have before: "\<not> ?stop i" if "i < k" for i
    using that unfolding k_def by (rule not_less_Least)
  have brk: "crossing_test g az el way (time + of_nat k * dt) dt = Break"
    using stop bf[of "time + of_nat k * dt"] by (auto simp: continues_def)
  have ft: "crossing_test g az el way (time + of_nat i * dt) dt = Fallthrough" if "i < k" for i
    using before[OF that] bf[of "time + of_nat i * dt"] by (auto simp: continues_def)
  have "search_pass g az el way window dt strict time n =
        Some (Inr (time + of_nat k * dt), n + 2 * (k + 1))"
    using w ft brk by (rule search_pass_finds)
  with ret have "y = (Inr (time + of_nat k * dt), n + 2 * (k + 1))" by simp
  with brk ft show ?thesis by blast
qed

subsection \<open>A bracket contains a bracket of each finer step\<close>

text \<open>
  If the predicate holds of the samples at the two ends of \<open>m\<close> consecutive steps, it
  holds of the samples at the two ends of one of them: a discrete intermediate-value
  argument, which needs no continuity of the channel.
\<close>

lemma discrete_crossing:
  fixes lo hi :: "rat \<Rightarrow> bool" and c :: "nat \<Rightarrow> rat"
  assumes tot: "\<And>x. lo x \<or> hi x"
  shows "0 < m \<Longrightarrow> lo (c 0) \<Longrightarrow> hi (c m) \<Longrightarrow> \<exists>k<m. lo (c k) \<and> hi (c (Suc k))"
proof (induction m)
  case 0
  then show ?case by simp
next
  case (Suc m)
  show ?case
  proof (cases "lo (c m)")
    case True
    with Suc.prems show ?thesis by blast
  next
    case False
    then have hi: "hi (c m)" using tot by blast
    from False Suc.prems have "0 < m" by (cases m) auto
    from Suc.IH[OF this Suc.prems(2) hi] obtain k where "k < m" "lo (c k) \<and> hi (c (Suc k))" by blast
    then show ?thesis using less_Suc_eq by blast
  qed
qed

lemma bracket_refines:
  fixes c :: "nat \<Rightarrow> rat"
  assumes m: "0 < m" and p: "crossing_predicate tg d (c 0) (c m)"
  shows "\<exists>k<m. crossing_predicate tg d (c k) (c (Suc k))"
proof (cases tg)
  case tg: (Azimuth A)
  from p have "c 0 \<le> A" "A \<le> c m" by (simp_all add: tg crossing_predicate_def)
  with discrete_crossing[of "\<lambda>x. x \<le> A" "\<lambda>x. A \<le> x" m c] m
  have "\<exists>k<m. c k \<le> A \<and> A \<le> c (Suc k)" by (simp add: linear)
  then show ?thesis by (simp add: tg crossing_predicate_def)
next
  case tg: (Elevation E)
  show ?thesis
  proof (cases d)
    case d: Rise
    from p have "c 0 \<le> E" "E \<le> c m" by (simp_all add: tg d crossing_predicate_def)
    with discrete_crossing[of "\<lambda>x. x \<le> E" "\<lambda>x. E \<le> x" m c] m
    have "\<exists>k<m. c k \<le> E \<and> E \<le> c (Suc k)" by (simp add: linear)
    then show ?thesis by (simp add: tg d crossing_predicate_def)
  next
    case d: Set
    from p have "E \<le> c 0" "c m \<le> E" by (simp_all add: tg d crossing_predicate_def)
    with discrete_crossing[of "\<lambda>x. E \<le> x" "\<lambda>x. x \<le> E" m c] m
    have "\<exists>k<m. E \<le> c k \<and> c (Suc k) \<le> E" by (simp add: linear)
    then show ?thesis by (simp add: tg d crossing_predicate_def conj_commute)
  qed
qed

lemma refinement_finds:
  assumes tg: "target_of az el = Some tg" and d: "direction_of way = Some d"
    and w: "0 \<le> window" and m: "0 < m"
    and parent: "crossing_test (\<lambda>t. Inr (f t)) az el way time (of_nat m * dt) = Break"
  shows "\<exists>k<m. search_pass (\<lambda>t. Inr (f t)) az el way window dt strict time n =
                  Some (Inr (time + of_nat k * dt), n + 2 * (k + 1)) \<and>
               crossing_test (\<lambda>t. Inr (f t)) az el way (time + of_nat k * dt) dt = Break"
proof -
  let ?g = "\<lambda>t. Inr (f t)"
  define c where "c i = channel tg (f (time + of_nat i * dt))" for i :: nat
  let ?brk = "\<lambda>k::nat. crossing_test ?g az el way (time + of_nat k * dt) dt = Break"
  have ct: "crossing_test ?g az el way (time + of_nat i * dt) dt =
            (if crossing_predicate tg d (c i) (c (Suc i)) then Break else Fallthrough)" for i
    by (simp add: crossing_test_spec[OF tg d] c_def algebra_simps)
  from parent have "crossing_predicate tg d (c 0) (c m)"
    by (simp add: crossing_test_spec[OF tg d] c_def split: if_splits)
  from bracket_refines[OF m this] obtain k0 where k0: "k0 < m" "?brk k0"
    by (auto simp: ct)
  define k where "k = (LEAST k. ?brk k)"
  have brk: "?brk k" unfolding k_def using k0(2) by (rule LeastI)
  have "k \<le> k0" unfolding k_def using k0(2) by (rule Least_le)
  with k0(1) have km: "k < m" by simp
  have ft: "crossing_test ?g az el way (time + of_nat i * dt) dt = Fallthrough" if "i < k" for i
  proof -
    from that have "\<not> ?brk i" unfolding k_def by (rule not_less_Least)
    with crossing_test_total[OF tg d, of f "time + of_nat i * dt" dt] show ?thesis by blast
  qed
  have "search_pass ?g az el way window dt strict time n =
        Some (Inr (time + of_nat k * dt), n + 2 * (k + 1))"
    using w ft brk by (rule search_pass_finds)
  with km brk show ?thesis by blast
qed

subsection \<open>The evaluator and the resolved query\<close>

text \<open>
  On a resolved source, instant and location \<^verbatim>\<open>getAltaz\<close> is the horizontal transform:
  it never raises.
\<close>

lemma getAltaz_resolved:
  "getAltaz ext (SrcSky c) (TimeObj t) (LocEarth l) u = Inr (transform_to ext c t l)"
  by (cases c) (simp add: getAltaz_def getTime_def getLoc_def)

lemma evaluator_resolved:
  "getAltaz_at ext c l = (\<lambda>t'. Inr (transform_to ext c t' l))"
  by (rule ext) (simp add: getAltaz_at_def getAltaz_resolved)

lemma getTransit_resolved:
  assumes "getTime ext time None = Inr t" and "getLoc ext loc ''deg'' = Inr l"
    and "getSrc ext source (TimeObj t) (LocEarth l) unit = Inr c"
  shows "getTransit ext source time loc az el unit way =
         (if direction_of way = None then Some (Inl way_error, 0)
          else search (\<lambda>t'. Inr (transform_to ext c t' l)) az el way t)"
  using assms by (simp add: getTransit_def direction_of_def way_error_def evaluator_resolved)

lemma resolved_args:
  "getTime ext (TimeObj t) None = Inr t" "getLoc ext (LocEarth l) u = Inr l"
  "getSrc ext (SrcSky c) time loc unit = Inr c"
  by (simp_all add: getTime_def getLoc_def getSrc_def)

lemma lower_examples:
  "lower ''rise'' = ''rise''" "lower ''set'' = ''set''" "lower ''deg'' = ''deg''"
  "lower ''Rise'' = ''rise''" "lower ''up'' = ''up''"
  by (simp_all add: lower_def lower_char_def)

lemma direction_of_examples:
  "direction_of ''rise'' = Some Rise" "direction_of ''set'' = Some Set" "direction_of ''up'' = None"
  by (simp_all add: direction_of_def lower_examples)

subsection \<open>The three passes in a row\<close>

lemma coarse_pass_invalid_target:
  assumes "target_of az el = None"
  shows "coarse_pass g az el way t n = Some (Inl target_error, n)"
proof -
  from assms have "crossing_test g az el way t 1800 = Else" by (simp add: crossing_test_Else_iff)
  then show ?thesis
    unfolding coarse_pass_def by (subst search_pass_unfold) (simp_all add: target_error_def)
qed

lemma search_invalid_target:
  assumes "target_of az el = None"
  shows "search g az el way t = Some (Inl target_error, 0)"
  by (simp add: search_def coarse_pass_invalid_target[OF assms])

lemma search_refines:
  assumes tg: "target_of az el = Some tg" and d: "direction_of way = Some d"
    and coarse: "coarse_pass (\<lambda>t. Inr (f t)) az el way t0 0 = Some y"
  shows "\<exists>k k1 k2. k1 < 6 \<and> k2 < 60 \<and>
           y = (Inr (t0 + of_nat k * 1800), 2 * (k + 1)) \<and>
           crossing_test (\<lambda>t. Inr (f t)) az el way (t0 + of_nat k * 1800) 1800 = Break \<and>
           (\<forall>i<k. crossing_test (\<lambda>t. Inr (f t)) az el way (t0 + of_nat i * 1800) 1800 = Fallthrough) \<and>
           mid_pass (\<lambda>t. Inr (f t)) az el way (t0 + of_nat k * 1800) (2 * (k + 1)) =
             Some (Inr (t0 + of_nat k * 1800 + of_nat k1 * 300), 2 * (k + 1) + 2 * (k1 + 1)) \<and>
           crossing_test (\<lambda>t. Inr (f t)) az el way (t0 + of_nat k * 1800 + of_nat k1 * 300) 300 = Break \<and>
           fine_pass (\<lambda>t. Inr (f t)) az el way (t0 + of_nat k * 1800 + of_nat k1 * 300)
               (2 * (k + 1) + 2 * (k1 + 1)) =
             Some (Inr (t0 + of_nat k * 1800 + of_nat k1 * 300 + of_nat k2 * 5),
                   2 * (k + 1) + 2 * (k1 + 1) + 2 * (k2 + 1)) \<and>
           crossing_test (\<lambda>t. Inr (f t)) az el way
               (t0 + of_nat k * 1800 + of_nat k1 * 300 + of_nat k2 * 5) 5 = Break \<and>
           search (\<lambda>t. Inr (f t)) az el way t0 =
             Some (Inr (t0 + of_nat k * 1800 + of_nat k1 * 300 + of_nat k2 * 5 + 5 / 2),
                   2 * (k + 1) + 2 * (k1 + 1) + 2 * (k2 + 1))"
proof -
  let ?g = "\<lambda>t. Inr (f t)"
  have bf: "crossing_test ?g az el way u dt = Break \<or> crossing_test ?g az el way u dt = Fallthrough"
    for u dt by (rule crossing_test_total[OF tg d])
  from coarse have "search_pass ?g az el way 86400 1800 True t0 0 = Some y"
    by (simp add: coarse_pass_def)
  from search_pass_result[OF _ bf this] obtain k
    where y: "y = (Inr (t0 + of_nat k * 1800), 2 * (k + 1))"
      and b0: "crossing_test ?g az el way (t0 + of_nat k * 1800) 1800 = Break"
      and f0: "\<forall>i<k. crossing_test ?g az el way (t0 + of_nat i * 1800) 1800 = Fallthrough"
    by auto
  let ?t1 = "t0 + of_nat k * 1800" and ?n1 = "2 * (k + 1)"
  from b0 have "crossing_test ?g az el way ?t1 (of_nat 6 * 300) = Break" by simp
  from refinement_finds[OF tg d _ _ this, of 1800 False ?n1] obtain k1
    where k1: "k1 < 6"
      and mid: "search_pass ?g az el way 1800 300 False ?t1 ?n1 =
                Some (Inr (?t1 + of_nat k1 * 300), ?n1 + 2 * (k1 + 1))"
      and b1: "crossing_test ?g az el way (?t1 + of_nat k1 * 300) 300 = Break"
    by auto
  let ?t2 = "?t1 + of_nat k1 * 300" and ?n2 = "?n1 + 2 * (k1 + 1)"
  from b1 have "crossing_test ?g az el way ?t2 (of_nat 60 * 5) = Break" by simp
  from refinement_finds[OF tg d _ _ this, of 300 False ?n2] obtain k2
    where k2: "k2 < 60"
      and fine: "search_pass ?g az el way 300 5 False ?t2 ?n2 =
                 Some (Inr (?t2 + of_nat k2 * 5), ?n2 + 2 * (k2 + 1))"
      and b2: "crossing_test ?g az el way (?t2 + of_nat k2 * 5) 5 = Break"
    by auto
  have "search ?g az el way t0 = Some (Inr (?t2 + of_nat k2 * 5 + 5 / 2), ?n2 + 2 * (k2 + 1))"
    using coarse mid fine by (simp add: search_def y mid_pass_def fine_pass_def)
  with k1 k2 y b0 f0 mid b1 fine b2 show ?thesis
    unfolding mid_pass_def fine_pass_def by blast
qed

subsection \<open>Azimuth targets do not read the direction\<close>

lemma crossing_test_az_total:
  "crossing_test (\<lambda>t. Inr (f t)) (Some A) None way u dt = Break \<or>
   crossing_test (\<lambda>t. Inr (f t)) (Some A) None way u dt = Fallthrough"
  by (simp add: crossing_test_def Let_def)

lemma search_pass_az_way_Some:
  assumes w: "0 \<le> window"
    and ret: "search_pass (\<lambda>t. Inr (f t)) (Some A) None way window dt strict time n = Some y"
  shows "search_pass (\<lambda>t. Inr (f t)) (Some A) None way' window dt strict time n = Some y"
proof -
  let ?g = "\<lambda>t. Inr (f t)"
  from search_pass_result[OF w crossing_test_az_total ret] obtain k
    where y: "y = (Inr (time + of_nat k * dt), n + 2 * (k + 1))"
      and brk: "crossing_test ?g (Some A) None way (time + of_nat k * dt) dt = Break"
      and ft: "\<forall>i<k. crossing_test ?g (Some A) None way (time + of_nat i * dt) dt = Fallthrough"
    by blast
  have brk': "crossing_test ?g (Some A) None way' (time + of_nat k * dt) dt = Break"
    using brk by (simp add: crossing_test_def)
  have ft': "crossing_test ?g (Some A) None way' (time + of_nat i * dt) dt = Fallthrough" if "i < k" for i
    using ft that by (simp add: crossing_test_def)
  show ?thesis unfolding y using w ft' brk' by (rule search_pass_finds)
qed

lemma search_pass_az_way:
  assumes w: "0 \<le> window"
  shows "search_pass (\<lambda>t. Inr (f t)) (Some A) None way window dt strict time n =
         search_pass (\<lambda>t. Inr (f t)) (Some A) None way' window dt strict time n"
proof (cases "search_pass (\<lambda>t. Inr (f t)) (Some A) None way window dt strict time n")
  case (Some y)
  with search_pass_az_way_Some[OF w this] show ?thesis by simp
next
  case None
  show ?thesis
  proof (cases "search_pass (\<lambda>t. Inr (f t)) (Some A) None way' window dt strict time n")
    case (Some y)
    from search_pass_az_way_Some[OF w this] None show ?thesis by simp
  next
    case None': None
    with None show ?thesis by simp
  qed
qed

lemma search_az_way:
  "search (\<lambda>t. Inr (f t)) (Some A) None way t0 = search (\<lambda>t. Inr (f t)) (Some A) None way' t0"
proof -
  let ?g = "\<lambda>t. Inr (f t)"
  have c: "coarse_pass ?g (Some A) None way t n = coarse_pass ?g (Some A) None way' t n" for t n
    unfolding coarse_pass_def by (rule search_pass_az_way) simp
  have m: "mid_pass ?g (Some A) None way t n = mid_pass ?g (Some A) None way' t n" for t n
    unfolding mid_pass_def by (rule search_pass_az_way) simp
  have f: "fine_pass ?g (Some A) None way t n = fine_pass ?g (Some A) None way' t n" for t n
    unfolding fine_pass_def by (rule search_pass_az_way) simp
  show ?thesis unfolding search_def c m f by (rule refl)
qed

subsection \<open>No exception from a valid query\<close>


text \<open>
  Two calls of \<^verbatim>\<open>getAltaz\<close> per step: a bracket found at the 28th step of the coarse
  pass has cost 56 calls.
\<close>

lemma coarse_pass_calls_example:
  "coarse_pass (getAltaz_at (synthetic rising) origin nenufar) (Some 205) None ''rise'' 0 0 =
     Some (Inr 48600, 56)"
  by (simp add: evaluator_resolved coarse_pass_def search_pass_unfold crossing_test_def
        synthetic_def rising_def)

section \<open>The claims\<close>

subsection \<open>The coarse pass\<close>

text \<open>
  C1. The claim: when no step yields a crossing bracket within 24 hours of the
  start, the coarse pass stops after at most 48 steps of 1800 s and \<^verbatim>\<open>getTransit\<close> fails
  with \<open>CrossingNotFound\<close>; the search never loops without bound. The code attempts the
  one-day bound with \<^verbatim>\<open>while time <= time + TimeDelta(1, format='jd')\<close>, but the
  condition compares the loop variable with itself and is always true. At the
  input below, a source that stays at elevation 45 queried for the rise through
  elevation 0 from instant 0, no step is a bracket and the call never returns: it
  neither stops after 48 steps nor raises.
\<close>

theorem circumpolar_query_never_returns:
  "getTransit (synthetic circumpolar) (SrcSky origin) (TimeObj 0) (LocEarth nenufar)
     None (Some 0) ''deg'' ''rise'' = None"
proof -
  have "coarse_pass (\<lambda>t'. Inr (circumpolar t')) None (Some 0) ''rise'' 0 0 = None"
    unfolding coarse_pass_def
    by (rule search_pass_diverges)
       (simp_all add: continues_def crossing_test_def circumpolar_def lower_examples)
  then show ?thesis
    by (simp add: getTransit_resolved[OF resolved_args] direction_of_examples search_def
          synthetic_def)
qed

subsection \<open>The refinement passes\<close>



subsection \<open>Rejected queries\<close>




subsection \<open>The crossing predicate\<close>

text \<open>
  C4. At every step of each of the three passes, the sampled pair
  \<open>(c1, c2) = (channel t, channel (t + dt))\<close> is accepted (the loop stops and returns
  \<open>t\<close>) exactly when the specification's crossing predicate holds of it, and the
  pass moves on to \<open>t + dt\<close> otherwise: for an azimuth target \<open>c1 \<le> A \<le> c2\<close> whatever
  the direction, for an elevation target \<open>c1 \<le> E \<le> c2\<close> when rising and
  \<open>c2 \<le> E \<le> c1\<close> when setting.
\<close>

theorem passes_test_crossing_predicate:
  assumes tg: "target_of az el = Some tg" and d: "direction_of way = Some d"
  shows "crossing_test (getAltaz_at ext c l) az el way t dt =
           (if crossing_predicate tg d (channel tg (transform_to ext c t l))
                 (channel tg (transform_to ext c (t + dt) l))
            then Break else Fallthrough) \<and>
         coarse_pass (getAltaz_at ext c l) az el way t n =
           (if crossing_predicate tg d (channel tg (transform_to ext c t l))
                 (channel tg (transform_to ext c (t + 1800) l))
            then Some (Inr t, n + 2)
            else coarse_pass (getAltaz_at ext c l)
                   az el way (t + 1800) (n + 2)) \<and>
         mid_pass (getAltaz_at ext c l) az el way t n =
           (if crossing_predicate tg d (channel tg (transform_to ext c t l))
                 (channel tg (transform_to ext c (t + 300) l))
            then Some (Inr t, n + 2)
            else mid_pass (getAltaz_at ext c l)
                   az el way (t + 300) (n + 2)) \<and>
         fine_pass (getAltaz_at ext c l) az el way t n =
           (if crossing_predicate tg d (channel tg (transform_to ext c t l))
                 (channel tg (transform_to ext c (t + 5) l))
            then Some (Inr t, n + 2)
            else fine_pass (getAltaz_at ext c l)
                   az el way (t + 5) (n + 2))"
proof -
  let ?g = "\<lambda>t. Inr (transform_to ext c t l)"
  have pass: "search_pass ?g az el way window dt strict t n =
              (if crossing_predicate tg d (channel tg (transform_to ext c t l))
                    (channel tg (transform_to ext c (t + dt) l))
               then Some (Inr t, n + 2)
               else search_pass ?g az el way window dt strict (t + dt) (n + 2))"
    if "0 \<le> window" for window dt strict
    by (subst search_pass_unfold[OF that]) (simp add: crossing_test_spec[OF tg d])
  show ?thesis
    unfolding evaluator_resolved coarse_pass_def mid_pass_def fine_pass_def
    using pass[of 86400 1800 True] pass[of 1800 300 False] pass[of 300 5 False]
    by (simp add: crossing_test_spec[OF tg d])
qed

theorem passes_test_crossing_predicate_witness:
  "crossing_test (getAltaz_at (synthetic rising) origin nenufar)
     None (Some 0) ''set'' 23990 5 = Fallthrough \<and>
   crossing_test (getAltaz_at (synthetic rising) origin nenufar)
     None (Some 0) ''rise'' 23995 5 = Break \<and>
   fine_pass (getAltaz_at (synthetic rising) origin nenufar)
     None (Some 0) ''rise'' 23995 6 = Some (Inr 23995, 8)"
  using passes_test_crossing_predicate[of None "Some 0" "Elevation 0" "''set''" Set
          "synthetic rising" origin nenufar 23990 5 0]
    passes_test_crossing_predicate[of None "Some 0" "Elevation 0" "''rise''" Rise
          "synthetic rising" origin nenufar 23995 5 6]
  by (simp add: target_of_def direction_of_examples crossing_predicate_def channel_def
        synthetic_def rising_def)

subsection \<open>The returned instant\<close>

text \<open>
  C5. When \<^verbatim>\<open>getTransit\<close> returns an instant \<open>r\<close>, the time, the location and the
  source have been resolved, the three passes have returned \<open>t1\<close>, \<open>t2\<close> and \<open>t3\<close> in turn, the pair sampled at \<open>t3\<close> and \<open>t3 + 5\<close> passes the
  crossing test, and \<open>r = t3 + 5/2\<close>; so every instant of the fine bracket
  \<open>[t3, t3 + 5]\<close>, the true crossing among them when the bracket contains it, is at
  most 2.5 seconds from \<open>r\<close>.
\<close>

theorem getTransit_returns_fine_midpoint:
  assumes ret: "getTransit ext source time loc az el unit way = Some (Inr r, n)"
  shows "\<exists>start l c t1 n1 t2 n2 t3.
           getTime ext time None = Inr start \<and>
           getLoc ext loc ''deg'' = Inr l \<and>
           getSrc ext source (TimeObj start) (LocEarth l) unit = Inr c \<and>
           coarse_pass (getAltaz_at ext c l) az el way start 0 = Some (Inr t1, n1) \<and>
           mid_pass (getAltaz_at ext c l) az el way t1 n1 = Some (Inr t2, n2) \<and>
           fine_pass (getAltaz_at ext c l) az el way t2 n2 = Some (Inr t3, n) \<and>
           crossing_test (getAltaz_at ext c l) az el way t3 5 = Break \<and>
           r = t3 + 5 / 2 \<and>
           (\<forall>x. t3 \<le> x \<and> x \<le> t3 + 5 \<longrightarrow> \<bar>r - x\<bar> \<le> 5 / 2)"
proof -
  from ret obtain start where time: "getTime ext time None = Inr start"
    by (cases "getTime ext time None") (auto simp: getTransit_def)
  from ret time obtain l where loc: "getLoc ext loc ''deg'' = Inr l"
    by (cases "getLoc ext loc ''deg''") (auto simp: getTransit_def)
  from ret time loc obtain c
    where src: "getSrc ext source (TimeObj start) (LocEarth l) unit = Inr c"
    by (cases "getSrc ext source (TimeObj start) (LocEarth l) unit") (auto simp: getTransit_def)
  let ?g = "\<lambda>t. Inr (transform_to ext c t l)"
  from ret have "direction_of way \<noteq> None"
    by (auto simp: getTransit_resolved[OF time loc src] split: if_splits)
  then obtain d where d: "direction_of way = Some d" by blast
  from ret d have s: "search ?g az el way start = Some (Inr r, n)"
    by (simp add: getTransit_resolved[OF time loc src])
  have "target_of az el \<noteq> None"
  proof
    assume "target_of az el = None"
    from search_invalid_target[OF this, of ?g way start] s show False by simp
  qed
  then obtain tg where tg: "target_of az el = Some tg" by blast
  from s obtain y where coarse: "coarse_pass ?g az el way start 0 = Some y"
    by (cases "coarse_pass ?g az el way start 0") (auto simp: search_def)
  from search_refines[OF tg d coarse] obtain k k1 k2
    where y: "y = (Inr (start + of_nat k * 1800), 2 * (k + 1))"
      and mid: "mid_pass ?g az el way (start + of_nat k * 1800) (2 * (k + 1)) =
                  Some (Inr (start + of_nat k * 1800 + of_nat k1 * 300), 2 * (k + 1) + 2 * (k1 + 1))"
      and fine: "fine_pass ?g az el way (start + of_nat k * 1800 + of_nat k1 * 300)
                    (2 * (k + 1) + 2 * (k1 + 1)) =
                  Some (Inr (start + of_nat k * 1800 + of_nat k1 * 300 + of_nat k2 * 5),
                        2 * (k + 1) + 2 * (k1 + 1) + 2 * (k2 + 1))"
      and b2: "crossing_test ?g az el way
                 (start + of_nat k * 1800 + of_nat k1 * 300 + of_nat k2 * 5) 5 = Break"
      and s': "search ?g az el way start =
                Some (Inr (start + of_nat k * 1800 + of_nat k1 * 300 + of_nat k2 * 5 + 5 / 2),
                      2 * (k + 1) + 2 * (k1 + 1) + 2 * (k2 + 1))"
    by auto
  define t3 where "t3 = start + of_nat k * 1800 + of_nat k1 * 300 + of_nat k2 * 5"
  from s s' have r: "r = t3 + 5 / 2" and n: "n = 2 * (k + 1) + 2 * (k1 + 1) + 2 * (k2 + 1)"
    by (simp_all add: t3_def)
  have near: "\<forall>x. t3 \<le> x \<and> x \<le> t3 + 5 \<longrightarrow> \<bar>r - x\<bar> \<le> 5 / 2"
    unfolding r by (intro allI impI, elim conjE) linarith
  from time loc src coarse y mid fine b2 r n near show ?thesis
    unfolding evaluator_resolved t3_def by blast
qed

theorem getTransit_returns_fine_midpoint_witness:
  "\<exists>start l c t1 n1 t2 n2 t3.
     getTime (synthetic rising) (TimeObj 23990) None = Inr start \<and>
     getLoc (synthetic rising) (LocEarth nenufar) ''deg'' = Inr l \<and>
     getSrc (synthetic rising) (SrcSky origin) (TimeObj start) (LocEarth l) ''deg'' = Inr c \<and>
     coarse_pass (getAltaz_at (synthetic rising) c l) None (Some 0) ''rise'' start 0 =
       Some (Inr t1, n1) \<and>
     mid_pass (getAltaz_at (synthetic rising) c l) None (Some 0) ''rise'' t1 n1 =
       Some (Inr t2, n2) \<and>
     fine_pass (getAltaz_at (synthetic rising) c l) None (Some 0) ''rise'' t2 n2 =
       Some (Inr t3, 8) \<and>
     crossing_test (getAltaz_at (synthetic rising) c l) None (Some 0) ''rise'' t3 5 = Break \<and>
     47995 / 2 = t3 + 5 / 2 \<and>
     (\<forall>x. t3 \<le> x \<and> x \<le> t3 + 5 \<longrightarrow> \<bar>47995 / 2 - x\<bar> \<le> 5 / 2)"
proof -
  have "getTransit (synthetic rising) (SrcSky origin) (TimeObj 23990) (LocEarth nenufar)
          None (Some 0) ''deg'' ''rise'' = Some (Inr (47995 / 2), 8)"
    by (simp add: getTransit_resolved[OF resolved_args] direction_of_examples search_def
          coarse_pass_def mid_pass_def fine_pass_def search_pass_unfold crossing_test_def
          synthetic_def rising_def lower_examples)
  from getTransit_returns_fine_midpoint[OF this]
  show ?thesis .
qed

subsection \<open>The wrappers\<close>

text \<open>
  C6. \<^verbatim>\<open>riseTime\<close> is \<^verbatim>\<open>getTransit\<close> with \<^verbatim>\<open>el=0\<close> and \<^verbatim>\<open>way='rise'\<close>, \<^verbatim>\<open>setTime\<close> is
  \<^verbatim>\<open>getTransit\<close> with \<^verbatim>\<open>el=0\<close> and \<^verbatim>\<open>way='set'\<close>, and \<^verbatim>\<open>meridianTime\<close> is \<^verbatim>\<open>getTransit\<close> with
  \<^verbatim>\<open>az=180\<close> and the default \<^verbatim>\<open>way='rise'\<close>: the targets \<open>Elevation 0\<close> and \<open>Azimuth 180\<close>
  and the directions \<open>Rise\<close> and \<open>Set\<close> of the specification.
\<close>

theorem wrappers_fix_parameters:
  "riseTime ext source time loc unit = getTransit ext source time loc None (Some 0) unit ''rise'' \<and>
   setTime ext source time loc unit = getTransit ext source time loc None (Some 0) unit ''set'' \<and>
   meridianTime ext source time loc unit = getTransit ext source time loc (Some 180) None unit ''rise'' \<and>
   target_of None (Some 0) = Some (Elevation 0) \<and>
   target_of (Some 180) None = Some (Azimuth 180) \<and>
   direction_of ''rise'' = Some Rise \<and>
   direction_of ''set'' = Some Set"
  by (simp add: riseTime_def setTime_def meridianTime_def target_of_def direction_of_examples)

theorem wrappers_fix_parameters_witness:
  "riseTime (synthetic rising) (SrcSky origin) (TimeObj 23990) (LocEarth nenufar) ''deg'' =
     Some (Inr (47995 / 2), 8) \<and>
   setTime (synthetic circumpolar) (SrcSky origin) (TimeObj 0) (LocEarth nenufar) ''deg'' =
     getTransit (synthetic circumpolar) (SrcSky origin) (TimeObj 0) (LocEarth nenufar)
       None (Some 0) ''deg'' ''set'' \<and>
   meridianTime (synthetic rising) (SrcSky origin) (TimeObj 43190) (LocEarth nenufar) ''deg'' =
     Some (Inr (86395 / 2), 8)"
proof -
  have r: "getTransit (synthetic rising) (SrcSky origin) (TimeObj 23990) (LocEarth nenufar)
          None (Some 0) ''deg'' ''rise'' = Some (Inr (47995 / 2), 8)"
    by (simp add: getTransit_resolved[OF resolved_args] direction_of_examples search_def
          coarse_pass_def mid_pass_def fine_pass_def search_pass_unfold crossing_test_def
          synthetic_def rising_def lower_examples)
  have m: "getTransit (synthetic rising) (SrcSky origin) (TimeObj 43190) (LocEarth nenufar)
          (Some 180) None ''deg'' ''rise'' = Some (Inr (86395 / 2), 8)"
    by (simp add: getTransit_resolved[OF resolved_args] direction_of_examples search_def
          coarse_pass_def mid_pass_def fine_pass_def search_pass_unfold crossing_test_def
          synthetic_def rising_def)
  show ?thesis
    using r m
      wrappers_fix_parameters[of "synthetic rising" "SrcSky origin" "TimeObj 23990"
        "LocEarth nenufar" "''deg''"]
      wrappers_fix_parameters[of "synthetic circumpolar" "SrcSky origin" "TimeObj 0"
        "LocEarth nenufar" "''deg''"]
      wrappers_fix_parameters[of "synthetic rising" "SrcSky origin" "TimeObj 43190"
        "LocEarth nenufar" "''deg''"]
    by simp
qed

subsection \<open>\<^verbatim>\<open>getTime\<close>\<close>

text \<open>
  C8. \<^verbatim>\<open>getTime\<close> maps \<^verbatim>\<open>'tomorrow'\<close> to now plus one day and \<^verbatim>\<open>'yesterday'\<close> to now
  minus one day (86400 s), in any capitalisation, and a number to the instant that
  the \<^verbatim>\<open>Time\<close> constructor builds from it in the format named by \<^verbatim>\<open>unit\<close>: \<^verbatim>\<open>'jd'\<close> by
  default, \<^verbatim>\<open>'jd'\<close> or \<^verbatim>\<open>'mjd'\<close> when given.
\<close>

theorem getTime_keywords_and_numbers:
  "(lower s = ''tomorrow'' \<longrightarrow> getTime ext (TimeStr s) unit = Inr (now ext + 86400)) \<and>
   (lower s = ''yesterday'' \<longrightarrow> getTime ext (TimeStr s) unit = Inr (now ext - 86400)) \<and>
   getTime ext (TimeNum x) None = Time_num ext ''jd'' x \<and>
   (lower u = ''jd'' \<longrightarrow> getTime ext (TimeNum x) (Some u) = Time_num ext ''jd'' x) \<and>
   (lower u = ''mjd'' \<longrightarrow> getTime ext (TimeNum x) (Some u) = Time_num ext ''mjd'' x)"
  by (simp add: getTime_def lower_def lower_char_def)

theorem getTime_keywords_and_numbers_witness:
  "getTime (synthetic rising) (TimeStr ''Tomorrow'') None = Inr 86400 \<and>
   getTime (synthetic rising) (TimeStr ''yesterday'') None = Inr (- 86400) \<and>
   getTime (synthetic rising) (TimeNum 2458000) (Some ''JD'') =
     Time_num (synthetic rising) ''jd'' 2458000 \<and>
   getTime (synthetic rising) (TimeNum 58000) (Some ''mjd'') =
     Time_num (synthetic rising) ''mjd'' 58000"
  using getTime_keywords_and_numbers[of "''Tomorrow''" "synthetic rising" None 2458000 "''JD''"]
    getTime_keywords_and_numbers[of "''yesterday''" "synthetic rising" None 58000 "''mjd''"]
  by (simp add: lower_def lower_char_def synthetic_def)

subsection \<open>\<^verbatim>\<open>getSrc\<close> on a coordinate pair\<close>

text \<open>
  C9. For a pair of coordinates and the unit \<^verbatim>\<open>'deg'\<close> (the default, in any
  capitalisation), \<^verbatim>\<open>getSrc\<close> raises the \<^verbatim>\<open>NameError\<close> of the unassigned local \<^verbatim>\<open>ra\<close>; it
  returns no \<^verbatim>\<open>SkyCoord\<close>.
\<close>

theorem getSrc_tuple_deg_unbound:
  "getSrc ext (SrcTuple [ra, dec]) time loc ''deg'' = Inl (NameError ''ra'') \<and>
   (lower unit = ''deg'' \<longrightarrow> getSrc ext (SrcTuple [ra, dec]) time loc unit = Inl (NameError ''ra''))"
  by (simp add: getSrc_def lower_examples)

theorem getSrc_tuple_deg_unbound_witness:
  "getSrc (synthetic rising) (SrcTuple [10, 20]) (TimeObj 0) (LocEarth nenufar) ''Deg'' =
     Inl (NameError ''ra'')"
  using getSrc_tuple_deg_unbound[of "synthetic rising" 10 20 "TimeObj 0" "LocEarth nenufar" "''Deg''"]
  by (simp add: lower_def lower_char_def)

subsection \<open>Azimuth targets and \<^verbatim>\<open>way\<close>\<close>

text \<open>
  C10. For an azimuth target, \<^verbatim>\<open>getTransit\<close> with \<^verbatim>\<open>way='rise'\<close> and with \<^verbatim>\<open>way='set'\<close>
  have the same outcome.
\<close>

theorem getTransit_azimuth_ignores_way:
  "getTransit ext source time loc (Some A) None unit ''rise'' =
   getTransit ext source time loc (Some A) None unit ''set''"
proof (cases "getTime ext time None")
  case (Inl e)
  then show ?thesis by (simp add: getTransit_def)
next
  case time: (Inr start)
  show ?thesis
  proof (cases "getLoc ext loc ''deg''")
    case (Inl e)
    with time show ?thesis by (simp add: getTransit_def)
  next
    case loc: (Inr l)
    show ?thesis
    proof (cases "getSrc ext source (TimeObj start) (LocEarth l) unit")
      case (Inl e)
      with time loc show ?thesis by (simp add: getTransit_def)
    next
      case src: (Inr c)
      show ?thesis
        using search_az_way[of "\<lambda>t. transform_to ext c t l" A "''rise''" start "''set''"]
        by (simp add: getTransit_resolved[OF time loc src] direction_of_examples)
    qed
  qed
qed

theorem getTransit_azimuth_ignores_way_witness:
  "getTransit (synthetic rising) (SrcSky origin) (TimeObj 43190) (LocEarth nenufar)
     (Some 180) None ''deg'' ''rise'' = Some (Inr (86395 / 2), 8)"
proof -
  have "getTransit (synthetic rising) (SrcSky origin) (TimeObj 43190) (LocEarth nenufar)
     (Some 180) None ''deg'' ''set'' = Some (Inr (86395 / 2), 8)"
    by (simp add: getTransit_resolved[OF resolved_args] direction_of_examples search_def
          coarse_pass_def mid_pass_def fine_pass_def search_pass_unfold crossing_test_def
          synthetic_def rising_def)
  with getTransit_azimuth_ignores_way[of "synthetic rising" "SrcSky origin" "TimeObj 43190"
         "LocEarth nenufar" 180 "''deg''"]
  show ?thesis by simp
qed

end
